theory Spec2Isabelle
  imports Main
begin

unbundle bit_operations_syntax

section \<open>Exceptions\<close>

text \<open>
  Every raise of the Python sources is a value of \<open>error\<close>; a function that can raise
  returns \<open>error + 'a\<close>, with \<open>Inl\<close> for the exception. \<open>IndexError\<close> is the builtin
  raised by list indexing, \<open>TypeError\<close> the builtin raised by \<open>&\<close> on \<open>None\<close>,
  \<open>PathNotFoundException\<close> and \<open>UnsupportedMediaType\<close> are the two exceptions the
  frontend raises itself. \<open>CollaboratorError\<close> stands for any exception raised by code
  that is called from the sources but lives outside them (pysam, the datamodel mixin,
  the backend), tagged with the name of the exception.
\<close>

datatype error =
    IndexError
  | TypeError
  | PathNotFoundException
  | UnsupportedMediaType
  | CollaboratorError string

definition bind_err :: "error + 'a \<Rightarrow> ('a \<Rightarrow> error + 'b) \<Rightarrow> error + 'b" where
  "bind_err m f = (case m of Inl e \<Rightarrow> Inl e | Inr x \<Rightarrow> f x)"

section \<open>reads.py: SamCigar\<close>

text \<open>
  Modelled from the spec: the module \<open>ga4gh.protocol\<close> is not among the sources, so the
  constants \<open>protocol.CigarOperation.*\<close> are taken from the spec's data model, a closed
  enumeration of nine pairwise different kinds.
\<close>

datatype CigarOperation =
    ALIGNMENT_MATCH
  | INSERT
  | DELETE
  | SKIP
  | CLIP_SOFT
  | CLIP_HARD
  | PAD
  | SEQUENCE_MATCH
  | SEQUENCE_MISMATCH

text \<open>
  \<open>ga2int\<close> accepts any Python value and compares it with \<open>==\<close>. A value is either one
  of the nine constants (\<open>Kind k\<close>) or some other object that is equal to none of them
  (\<open>Other s\<close>, with \<open>s\<close> naming the object).
\<close>

datatype pyvalue = Kind CigarOperation | Other string

definition cigarStrings :: "pyvalue list" where
  "cigarStrings =
     [Kind ALIGNMENT_MATCH,
      Kind INSERT,
      Kind DELETE,
      Kind SKIP,
      Kind CLIP_SOFT,
      Kind CLIP_HARD,
      Kind PAD,
      Kind SEQUENCE_MATCH,
      Kind SEQUENCE_MISMATCH]"

text \<open>
  The loop \<open>for i, cigarString in enumerate(cls.cigarStrings)\<close> of \<open>ga2int\<close>: the
  counter starts at 0, the first equal entry returns its index, and falling off the end
  of the loop returns Python's \<open>None\<close> (here \<open>None\<close> of the option type).
\<close>

fun ga2int_loop :: "int \<Rightarrow> pyvalue list \<Rightarrow> pyvalue \<Rightarrow> int option" where
  "ga2int_loop i [] value = None"
| "ga2int_loop i (cigarString # rest) value =
     (if value = cigarString then Some i else ga2int_loop (i + 1) rest value)"

definition ga2int :: "pyvalue \<Rightarrow> int option" where
  "ga2int value = ga2int_loop 0 cigarStrings value"

text \<open>
  The subscript \<open>cls.cigarStrings[value]\<close> is Python's list subscript: an index from 0
  up to the length reads that entry, an index from minus the length up to -1 reads the
  entry that many places before the end, and any other index raises \<open>IndexError\<close>.
\<close>

definition py_index :: "'a list \<Rightarrow> int \<Rightarrow> error + 'a" where
  "py_index xs i =
     (if 0 \<le> i \<and> i < int (length xs) then Inr (xs ! nat i)
      else if i < 0 \<and> - int (length xs) \<le> i then Inr (xs ! nat (int (length xs) + i))
      else Inl IndexError)"

definition int2ga :: "int \<Rightarrow> error + pyvalue" where
  "int2ga value = py_index cigarStrings value"

section \<open>reads.py: SamFlags\<close>

definition NUMBER_READS :: int where "NUMBER_READS = 0x1"
definition PROPER_PLACEMENT :: int where "PROPER_PLACEMENT = 0x2"
definition READ_NUMBER_ONE :: int where "READ_NUMBER_ONE = 0x40"
definition READ_NUMBER_TWO :: int where "READ_NUMBER_TWO = 0x80"
definition SECONDARY_ALIGNMENT :: int where "SECONDARY_ALIGNMENT = 0x100"
definition FAILED_VENDOR_QUALITY_CHECKS :: int where "FAILED_VENDOR_QUALITY_CHECKS = 0x200"
definition DUPLICATE_FRAGMENT :: int where "DUPLICATE_FRAGMENT = 0x400"
definition SUPPLEMENTARY_ALIGNMENT :: int where "SUPPLEMENTARY_ALIGNMENT = 0x800"

text \<open>
  \<open>isFlagSet\<close> on Python's unbounded integers. In Python \<open>==\<close> binds weaker than
  \<open>&\<close>, so the body is \<open>(flagAttr & flag) == flag\<close>.
\<close>

definition isFlagSet :: "int \<Rightarrow> int \<Rightarrow> bool" where
  "isFlagSet flagAttr flag \<longleftrightarrow> flagAttr AND flag = flag"

text \<open>
  \<open>setFlag\<close> rebinds its local name \<open>flagAttr\<close> to \<open>flagAttr | flag\<close> and ends without
  a return statement. Python integers are immutable, so the caller's object is
  untouched, and the call evaluates to \<open>None\<close>. The result type \<open>int option\<close> is
  "an integer or \<open>None\<close>".
\<close>

definition setFlag :: "int \<Rightarrow> int \<Rightarrow> int option" where
  "setFlag flagAttr flag = (let flagAttr = flagAttr OR flag in None)"

text \<open>
  \<open>isFlagSet\<close> applied to what a call returned: \<open>None & flag\<close> raises \<open>TypeError\<close>.
\<close>

definition isFlagSet_of_result :: "int option \<Rightarrow> int \<Rightarrow> error + bool" where
  "isFlagSet_of_result r flag =
     (case r of None \<Rightarrow> Inl TypeError | Some flagAttr \<Rightarrow> Inr (isFlagSet flagAttr flag))"

section \<open>reads.py: the protocol objects built by the mapper\<close>

text \<open>
  Modelled from the spec: the classes of \<open>ga4gh.protocol\<close> (\<open>Strand\<close>, \<open>Position\<close>,
  \<open>CigarUnit\<close>, \<open>LinearAlignment\<close>, \<open>ReadAlignment\<close>) are not among the sources; the
  records below carry exactly the attributes that \<open>convertReadAlignment\<close> assigns, with
  Python's \<open>None\<close> as \<open>None\<close> of the option type where the source assigns it.
  \<open>alignment_position\<close> and \<open>alignment_cigar\<close> are the attributes \<open>position\<close> and
  \<open>cigar\<close> of the linear alignment, \<open>alignment_id\<close> is the attribute \<open>id\<close>.
\<close>

datatype Strand = NEG_STRAND | POS_STRAND

record Position =
  referenceName :: string
  position :: int
  strand :: Strand

record CigarUnit =
  operation :: pyvalue
  operationLength :: int
  referenceSequence :: "string option"

record LinearAlignment =
  mappingQuality :: int
  alignment_position :: Position
  alignment_cigar :: "CigarUnit list"

record ReadAlignment =
  alignedQuality :: "int list"
  alignedSequence :: string
  alignment :: LinearAlignment
  duplicateFragment :: bool
  failedVendorQualityChecks :: bool
  fragmentLength :: int
  fragmentName :: string
  alignment_id :: string
  info :: "string \<rightharpoonup> string list"
  nextMatePosition :: "Position option"
  numberReads :: "int option"
  readNumber :: "int option"
  properPlacement :: bool
  readGroupId :: string
  secondaryAlignment :: bool
  supplementaryAlignment :: bool

text \<open>
  The raw record is pysam's \<open>AlignedSegment\<close>, an object of the external reader: the
  record has the attributes that \<open>convertReadAlignment\<close> reads. The values of the tags
  have any type \<open>'v\<close>; the builtin \<open>str\<close> that renders them is a parameter of the
  mapper.
\<close>

record 'v AlignedSegment =
  query_qualities :: "int list"
  query_sequence :: string
  mapping_quality :: int
  reference_id :: int
  reference_start :: int
  cigar :: "(int \<times> int) list"
  flag :: int
  template_length :: int
  query_name :: string
  tags :: "(string \<times> 'v) list"
  next_reference_id :: int
  next_reference_start :: int

text \<open>
  The read group: its id (\<open>self._id\<close>) and the operations it calls on objects outside
  the sources, each of which may raise: \<open>sanitizeGetRName\<close> and
  \<open>sanitizeAlignmentFileFetch\<close> of the datamodel mixin, \<open>getrname\<close> and \<open>fetch\<close> of
  the open pysam file (\<open>self._samFile\<close>). \<open>fetch\<close> hands over the finite sequence of
  raw records of the queried region.
\<close>

record 'v HtslibReadGroup =
  rg_id :: string
  sanitizeGetRName :: "int \<Rightarrow> error + unit"
  getrname :: "int \<Rightarrow> error + string"
  sanitizeAlignmentFileFetch ::
    "string \<Rightarrow> int option \<Rightarrow> int option \<Rightarrow> error + (string \<times> int option \<times> int option)"
  fetch :: "string \<Rightarrow> int option \<Rightarrow> int option \<Rightarrow> error + 'v AlignedSegment list"

section \<open>reads.py: HtslibReadGroup.convertReadAlignment\<close>

text \<open>
  The loop \<open>for operation, length in read.cigar\<close>: one unit per raw pair, appended in
  order; the first \<open>int2ga\<close> that raises ends the conversion.
\<close>

fun convertCigar :: "(int \<times> int) list \<Rightarrow> error + CigarUnit list" where
  "convertCigar [] = Inr []"
| "convertCigar ((opcode, len) # rest) =
     bind_err (int2ga opcode) (\<lambda>ga.
     bind_err (convertCigar rest) (\<lambda>units.
     Inr (\<lparr>operation = ga, operationLength = len, referenceSequence = None\<rparr> # units)))"

text \<open>
  A position object as lines 259-265 and 283-289 build it: the name is looked up after
  the sanitizer accepted the index, the start is copied, the strand is the constant.
\<close>

definition convertPosition :: "'v HtslibReadGroup \<Rightarrow> int \<Rightarrow> int \<Rightarrow> error + Position" where
  "convertPosition self rid start =
     bind_err (sanitizeGetRName self rid) (\<lambda>_.
     bind_err (getrname self rid) (\<lambda>name.
     Inr \<lparr>referenceName = name, position = start, strand = POS_STRAND\<rparr>))"

text \<open>Lines 293-300: the pair \<open>(numberReads, readNumber)\<close>.\<close>

definition convertReadNumbers :: "int \<Rightarrow> int option \<times> int option" where
  "convertReadNumbers fl =
     (if isFlagSet fl NUMBER_READS then
        (Some 2,
         if isFlagSet fl READ_NUMBER_ONE then Some 0
         else if isFlagSet fl READ_NUMBER_TWO then Some 1
         else None)
      else (None, None))"

text \<open>
  Line 280, the dictionary comprehension over \<open>read.tags\<close>: a later pair with the same
  key replaces the earlier one.
\<close>

definition convertTags :: "('v \<Rightarrow> string) \<Rightarrow> (string \<times> 'v) list \<Rightarrow> (string \<rightharpoonup> string list)" where
  "convertTags str kvs = fold (\<lambda>(key, v) d. d(key \<mapsto> [str v])) kvs Map.empty"

definition convertReadAlignment ::
  "('v \<Rightarrow> string) \<Rightarrow> 'v HtslibReadGroup \<Rightarrow> 'v AlignedSegment \<Rightarrow> error + ReadAlignment" where
  "convertReadAlignment str self read =
     bind_err (convertPosition self (reference_id read) (reference_start read)) (\<lambda>pos.
     bind_err (convertCigar (cigar read)) (\<lambda>units.
     bind_err (if next_reference_id read \<noteq> - 1
               then bind_err (convertPosition self (next_reference_id read)
                                (next_reference_start read)) (\<lambda>p. Inr (Some p))
               else Inr None) (\<lambda>mate.
     Inr \<lparr>alignedQuality = query_qualities read,
          alignedSequence = query_sequence read,
          alignment = \<lparr>mappingQuality = mapping_quality read,
                       alignment_position = pos,
                       alignment_cigar = units\<rparr>,
          duplicateFragment = isFlagSet (flag read) DUPLICATE_FRAGMENT,
          failedVendorQualityChecks = isFlagSet (flag read) FAILED_VENDOR_QUALITY_CHECKS,
          fragmentLength = template_length read,
          fragmentName = query_name read,
          alignment_id = rg_id self @ '':'' @ query_name read,
          info = convertTags str (tags read),
          nextMatePosition = mate,
          numberReads = fst (convertReadNumbers (flag read)),
          readNumber = snd (convertReadNumbers (flag read)),
          properPlacement = isFlagSet (flag read) PROPER_PLACEMENT,
          readGroupId = rg_id self,
          secondaryAlignment = isFlagSet (flag read) SECONDARY_ALIGNMENT,
          supplementaryAlignment = isFlagSet (flag read) SUPPLEMENTARY_ALIGNMENT\<rparr>)))"

section \<open>reads.py: HtslibReadGroup.getReadAlignments\<close>

text \<open>
  The generator's loop. What a consumer sees is the list of the records yielded so far
  and, when a conversion raised, the exception that ended the iteration.
\<close>

fun yieldReadAlignments ::
  "('v \<Rightarrow> string) \<Rightarrow> 'v HtslibReadGroup \<Rightarrow> 'v AlignedSegment list
     \<Rightarrow> ReadAlignment list \<times> error option" where
  "yieldReadAlignments str self [] = ([], None)"
| "yieldReadAlignments str self (readAlignment # rest) =
     (case convertReadAlignment str self readAlignment of
        Inl e \<Rightarrow> ([], Some e)
      | Inr ret \<Rightarrow>
          (case yieldReadAlignments str self rest of (rets, e) \<Rightarrow> (ret # rets, e)))"

text \<open>
  Lines 237-244, the part of \<open>getReadAlignments\<close> before its loop: the reference name
  (the empty string without a reference id), the sanitized arguments, the fetch.
\<close>

definition fetchReadAlignments ::
  "'v HtslibReadGroup \<Rightarrow> int option \<Rightarrow> int option \<Rightarrow> int option
     \<Rightarrow> error + 'v AlignedSegment list" where
  "fetchReadAlignments self referenceId start end' =
     bind_err (case referenceId of
                 None \<Rightarrow> Inr ''''
               | Some rid \<Rightarrow> bind_err (sanitizeGetRName self rid) (\<lambda>_. getrname self rid))
       (\<lambda>referenceName.
     bind_err (sanitizeAlignmentFileFetch self referenceName start end')
       (\<lambda>(referenceName', start', end'').
     fetch self referenceName' start' end''))"

definition getReadAlignments ::
  "('v \<Rightarrow> string) \<Rightarrow> 'v HtslibReadGroup \<Rightarrow> int option \<Rightarrow> int option \<Rightarrow> int option
     \<Rightarrow> ReadAlignment list \<times> error option" where
  "getReadAlignments str self referenceId start end' =
     (case fetchReadAlignments self referenceId start end' of
        Inl e \<Rightarrow> ([], Some e)
      | Inr readAlignments \<Rightarrow> yieldReadAlignments str self readAlignments)"

section \<open>frontend.py\<close>

text \<open>
  The view functions read the global \<open>flask.request\<close> and the global \<open>app.backend\<close>;
  both are explicit arguments here. A request has the three attributes the views use
  (\<open>get_data()\<close> is \<open>request_data\<close>); a response has what \<open>flask.Response\<close> was given
  (the status is 200 when none is passed). The backend object is outside the sources:
  its three search methods take the request body and return the response body, or
  raise.
\<close>

record Request =
  request_method :: string
  request_mimetype :: string
  request_data :: string

record Response =
  response_body :: string
  response_status :: int
  response_mimetype :: string
  response_headers :: "(string \<times> string) list"

record Backend =
  backend_searchVariantSets :: "string \<Rightarrow> error + string"
  backend_searchVariants :: "string \<Rightarrow> error + string"
  backend_searchExpressionAnalysis :: "string \<Rightarrow> error + string"

definition handleHTTPPost :: "Request \<Rightarrow> (string \<Rightarrow> error + string) \<Rightarrow> error + Response" where
  "handleHTTPPost request endpoint =
     (let mimetype = ''application/json''
      in if request_mimetype request \<noteq> mimetype then Inl UnsupportedMediaType
         else bind_err (endpoint (request_data request)) (\<lambda>responseStr.
              Inr \<lparr>response_body = responseStr, response_status = 200,
                   response_mimetype = mimetype, response_headers = []\<rparr>))"

definition handleHTTPOptions :: Response where
  "handleHTTPOptions =
     \<lparr>response_body = '''', response_status = 200,
      response_mimetype = ''application/json'',
      response_headers = [(''Access-Control-Request-Methods'', ''GET,POST,OPTIONS'')]\<rparr>"

definition index :: "error + Response" where
  "index = Inl PathNotFoundException"

definition getReference :: "string \<Rightarrow> error + Response" where
  "getReference ident = Inl PathNotFoundException"

definition getReferenceBases :: "string \<Rightarrow> error + Response" where
  "getReferenceBases ident = Inl PathNotFoundException"

definition getReferenceSet :: "string \<Rightarrow> error + Response" where
  "getReferenceSet ident = Inl PathNotFoundException"

definition searchCallSets :: "error + Response" where
  "searchCallSets = Inl PathNotFoundException"

definition searchReadGroupSets :: "error + Response" where
  "searchReadGroupSets = Inl PathNotFoundException"

definition searchReads :: "error + Response" where
  "searchReads = Inl PathNotFoundException"

definition searchReferenceSets :: "error + Response" where
  "searchReferenceSets = Inl PathNotFoundException"

definition searchReferences :: "error + Response" where
  "searchReferences = Inl PathNotFoundException"

definition searchVariantSets :: "Backend \<Rightarrow> Request \<Rightarrow> error + Response" where
  "searchVariantSets backend request =
     (if request_method request = ''POST''
      then handleHTTPPost request (backend_searchVariantSets backend)
      else Inr handleHTTPOptions)"

definition searchVariants :: "Backend \<Rightarrow> Request \<Rightarrow> error + Response" where
  "searchVariants backend request =
     (if request_method request = ''POST''
      then handleHTTPPost request (backend_searchVariants backend)
      else Inr handleHTTPOptions)"

definition searchExpressionAnalysis :: "Backend \<Rightarrow> Request \<Rightarrow> error + Response" where
  "searchExpressionAnalysis backend request =
     (if request_method request = ''POST''
      then handleHTTPPost request (backend_searchExpressionAnalysis backend)
      else Inr handleHTTPOptions)"

text \<open>
  The routes, in the order of the \<open>@app.route\<close> decorators: the rule, the methods (GET
  when the decorator names none) and the view, called with the backend, the request and
  the value of \<open><id>\<close> (the empty string for a rule without it).
\<close>

type_synonym view = "Backend \<Rightarrow> Request \<Rightarrow> string \<Rightarrow> error + Response"

definition routes :: "(string \<times> string list \<times> view) list" where
  "routes =
     [(''/'', [''GET''], \<lambda>backend request ident. index),
      (''/references/<id>'', [''GET''], \<lambda>backend request ident. getReference ident),
      (''/references/<id>/bases'', [''GET''], \<lambda>backend request ident. getReferenceBases ident),
      (''/referencesets/<id>'', [''GET''], \<lambda>backend request ident. getReferenceSet ident),
      (''/callsets/search'', [''POST''], \<lambda>backend request ident. searchCallSets),
      (''/readgroupsets/search'', [''POST''], \<lambda>backend request ident. searchReadGroupSets),
      (''/reads/search'', [''POST''], \<lambda>backend request ident. searchReads),
      (''/referencesets/search'', [''POST''], \<lambda>backend request ident. searchReferenceSets),
      (''/references/search'', [''POST''], \<lambda>backend request ident. searchReferences),
      (''/variantsets/search'', [''POST'', ''OPTIONS''],
         \<lambda>backend request ident. searchVariantSets backend request),
      (''/variants/search'', [''POST'', ''OPTIONS''],
         \<lambda>backend request ident. searchVariants backend request),
      (''/expressionanalysis/search'', [''POST'', ''OPTIONS''],
         \<lambda>backend request ident. searchExpressionAnalysis backend request)]"

text \<open>
  A view raises immediately when it raises the path-not-found exception whatever the
  backend, the request and the path argument are.
\<close>

definition raisesPathNotFound :: "view \<Rightarrow> bool" where
  "raisesPathNotFound v \<longleftrightarrow>
     (\<forall>backend request ident. v backend request ident = Inl PathNotFoundException)"

text \<open>
  A view is a pass-through delegation to the backend method \<open>endpoint\<close> when, on a POST
  request of the JSON media type, it answers with whatever the method made of the
  request body: the method's exception, or status 200 with the method's string.
\<close>

definition delegatesTo :: "view \<Rightarrow> (Backend \<Rightarrow> string \<Rightarrow> error + string) \<Rightarrow> bool" where
  "delegatesTo v endpoint \<longleftrightarrow>
     (\<forall>backend request ident.
        request_method request = ''POST'' \<and> request_mimetype request = ''application/json''
        \<longrightarrow> v backend request ident =
              (case endpoint backend (request_data request) of
                 Inl e \<Rightarrow> Inl e
               | Inr responseStr \<Rightarrow>
                   Inr \<lparr>response_body = responseStr, response_status = 200,
                        response_mimetype = ''application/json'', response_headers = []\<rparr>))"

text \<open>
  The rules of the routes whose view does not raise the path-not-found exception on a
  given request.
\<close>

definition answeringRoutes :: "Backend \<Rightarrow> Request \<Rightarrow> string \<Rightarrow> string list" where
  "answeringRoutes backend request ident =
     map fst (filter (\<lambda>(rule, methods, v). v backend request ident \<noteq> Inl PathNotFoundException)
                routes)"

section \<open>Sample inputs\<close>

text \<open>
  A read group over a file with the two references \<open>chr1\<close> and \<open>chr2\<close>: the sanitizer
  and the lookup accept the indices 0 and 1, the fetch sanitizer passes its arguments
  on, and the file holds the records given.
\<close>

definition sampleGroup :: "int AlignedSegment list \<Rightarrow> int HtslibReadGroup" where
  "sampleGroup records =
     \<lparr>rg_id = ''set:file'',
      sanitizeGetRName =
        (\<lambda>i. if 0 \<le> i \<and> i < 2 then Inr () else Inl (CollaboratorError ''DatamodelValidationException'')),
      getrname =
        (\<lambda>i. if i = 0 then Inr ''chr1'' else if i = 1 then Inr ''chr2''
              else Inl (CollaboratorError ''ValueError'')),
      sanitizeAlignmentFileFetch = (\<lambda>referenceName start end'. Inr (referenceName, start, end')),
      fetch = (\<lambda>referenceName start end'. Inr records)\<rparr>"

definition sampleRead :: "int \<Rightarrow> int \<Rightarrow> (int \<times> int) list \<Rightarrow> int AlignedSegment" where
  "sampleRead fl next_id cig =
     \<lparr>query_qualities = [30, 31, 32],
      query_sequence = ''ACT'',
      mapping_quality = 60,
      reference_id = 0,
      reference_start = 100,
      cigar = cig,
      flag = fl,
      template_length = 3,
      query_name = ''read1'',
      tags = [(''NM'', 2)],
      next_reference_id = next_id,
      next_reference_start = 200\<rparr>"

definition sampleStr :: "int \<Rightarrow> string" where
  "sampleStr v = (if v = 2 then ''2'' else ''?'')"

definition sampleBackend :: Backend where
  "sampleBackend =
     \<lparr>backend_searchVariantSets = (\<lambda>body. Inr (''sets:'' @ body)),
      backend_searchVariants = (\<lambda>body. Inr (''variants:'' @ body)),
      backend_searchExpressionAnalysis = (\<lambda>body. Inr (''expression:'' @ body))\<rparr>"

definition samplePost :: Request where
  "samplePost =
     \<lparr>request_method = ''POST'', request_mimetype = ''application/json'',
      request_data = ''{}''\<rparr>"

section \<open>Exceptions and results\<close>

lemma bind_err_Inr:
  "bind_err m f = Inr y \<longleftrightarrow> (\<exists>x. m = Inr x \<and> f x = Inr y)"
  by (cases m) (simp_all add: bind_err_def)

section \<open>SamCigar and SamFlags\<close>

lemma ga2int_loop_None:
  "ga2int_loop i xs v = None \<longleftrightarrow> v \<notin> set xs"
  by (induction xs arbitrary: i) auto

lemma ga2int_loop_Some:
  "ga2int_loop i xs v = Some j \<Longrightarrow>
     i \<le> j \<and> j < i + int (length xs) \<and> xs ! nat (j - i) = v
     \<and> (\<forall>m < nat (j - i). xs ! m \<noteq> v)"
proof (induction xs arbitrary: i)
  case Nil
  then show ?case by simp
next
  case (Cons x xs)
  show ?case
  proof (cases "v = x")
    case True
    with Cons.prems show ?thesis by simp
  next
    case False
    with Cons.prems have rec: "ga2int_loop (i + 1) xs v = Some j" by simp
    from Cons.IH [OF rec]
    have b: "i + 1 \<le> j" "j < i + 1 + int (length xs)"
      and h: "xs ! nat (j - (i + 1)) = v"
      and f: "\<forall>m < nat (j - (i + 1)). xs ! m \<noteq> v"
      by auto
    from b have n: "nat (j - i) = Suc (nat (j - (i + 1)))" by simp
    have first: "\<forall>m < nat (j - i). (x # xs) ! m \<noteq> v"
    proof (intro allI impI)
      fix m assume "m < nat (j - i)"
      with n have "m < Suc (nat (j - (i + 1)))" by simp
      then show "(x # xs) ! m \<noteq> v"
        using False f by (cases m) auto
    qed
    from b h n first show ?thesis by simp
  qed
qed

lemma length_cigarStrings: "length cigarStrings = 9"
  by (simp add: cigarStrings_def)

lemma int2ga_codes:
  "int2ga 0 = Inr (Kind ALIGNMENT_MATCH)"
  "int2ga 1 = Inr (Kind INSERT)"
  "int2ga 2 = Inr (Kind DELETE)"
  "int2ga 3 = Inr (Kind SKIP)"
  "int2ga 4 = Inr (Kind CLIP_SOFT)"
  "int2ga 5 = Inr (Kind CLIP_HARD)"
  "int2ga 6 = Inr (Kind PAD)"
  "int2ga 7 = Inr (Kind SEQUENCE_MATCH)"
  "int2ga 8 = Inr (Kind SEQUENCE_MISMATCH)"
  by (simp_all add: int2ga_def py_index_def cigarStrings_def)

lemma ga2int_kinds:
  "ga2int (Kind ALIGNMENT_MATCH) = Some 0"
  "ga2int (Kind INSERT) = Some 1"
  "ga2int (Kind DELETE) = Some 2"
  "ga2int (Kind SKIP) = Some 3"
  "ga2int (Kind CLIP_SOFT) = Some 4"
  "ga2int (Kind CLIP_HARD) = Some 5"
  "ga2int (Kind PAD) = Some 6"
  "ga2int (Kind SEQUENCE_MATCH) = Some 7"
  "ga2int (Kind SEQUENCE_MISMATCH) = Some 8"
  by (simp_all add: ga2int_def cigarStrings_def)

lemma code_cases:
  "0 \<le> c \<Longrightarrow> c \<le> 8 \<Longrightarrow>
     c = 0 \<or> c = 1 \<or> c = 2 \<or> c = 3 \<or> c = 4 \<or> c = 5 \<or> c = 6 \<or> c = 7 \<or> c = (8::int)"
  by arith

text \<open>
  Claim C1 says that the flag-set helper returns the bitwise or of its arguments, so
  that testing the bit on what it returned gives true. \<open>setFlag\<close> has no return
  statement: at the flag value \<open>0x0\<close> and the bit \<open>0x1\<close> the call evaluates to
  \<open>None\<close>, not to \<open>0x1\<close>, and \<open>isFlagSet\<close> on that result raises \<open>TypeError\<close>.
\<close>

theorem setFlag_returns_None:
  "setFlag 0 1 = None \<and> setFlag 0 1 \<noteq> Some (0 OR 1)
   \<and> isFlagSet_of_result (setFlag 0 1) 1 = Inl TypeError"
  by (simp add: setFlag_def isFlagSet_of_result_def)

text \<open>
  Claim C2: decoding and encoding are mutually inverse on the nine kinds. For each kind
  \<open>k\<close>, \<open>ga2int\<close> returns an index and \<open>int2ga\<close> of that index is \<open>k\<close> again; for
  each code \<open>c\<close> from 0 to 8, \<open>int2ga\<close> returns a value and \<open>ga2int\<close> of that value
  is \<open>c\<close> again.
\<close>

theorem cigar_roundtrip:
  "(\<exists>i. ga2int (Kind k) = Some i \<and> int2ga i = Inr (Kind k))
   \<and> (0 \<le> c \<and> c \<le> 8 \<longrightarrow> (\<exists>v. int2ga c = Inr v \<and> ga2int v = Some c))"
proof
  show "\<exists>i. ga2int (Kind k) = Some i \<and> int2ga i = Inr (Kind k)"
    by (cases k) (simp_all add: ga2int_kinds int2ga_codes)
next
  show "0 \<le> c \<and> c \<le> 8 \<longrightarrow> (\<exists>v. int2ga c = Inr v \<and> ga2int v = Some c)"
  proof
    assume "0 \<le> c \<and> c \<le> 8"
    then have "c = 0 \<or> c = 1 \<or> c = 2 \<or> c = 3 \<or> c = 4 \<or> c = 5 \<or> c = 6 \<or> c = 7 \<or> c = 8"
      using code_cases by blast
    then show "\<exists>v. int2ga c = Inr v \<and> ga2int v = Some c"
      by (elim disjE) (simp_all add: ga2int_kinds int2ga_codes)
  qed
qed

theorem cigar_roundtrip_witness:
  "(0::int) \<le> 3 \<and> (3::int) \<le> 8
   \<and> ga2int (Kind SKIP) = Some 3 \<and> int2ga 3 = Inr (Kind SKIP)"
  using cigar_roundtrip [of SKIP 3] by (simp add: ga2int_kinds int2ga_codes)

text \<open>
  Against C5 as stated (an unknown value makes the encoder fail): for a value that is
  none of the nine kinds the loop of \<open>ga2int\<close> ends and the call returns \<open>None\<close>.
\<close>

theorem ga2int_unknown_counterexample:
  "ga2int (Other ''MATCH'') = None"
  by (simp add: ga2int_def cigarStrings_def)

text \<open>
  Claim C5, as amended: for a value that is not in the fixed list, \<open>ga2int\<close> returns
  \<open>None\<close> and raises nothing; for a value that is in the list it returns the first
  index at which the list holds that value, an index from 0 to 8.
\<close>

theorem ga2int_first_index:
  "(v \<notin> set cigarStrings \<longrightarrow> ga2int v = None)
   \<and> (v \<in> set cigarStrings \<longrightarrow>
        (\<exists>i. ga2int v = Some i \<and> 0 \<le> i \<and> i < 9 \<and> cigarStrings ! nat i = v
             \<and> (\<forall>m < nat i. cigarStrings ! m \<noteq> v)))"
proof (intro conjI impI)
  assume "v \<notin> set cigarStrings"
  then show "ga2int v = None"
    by (simp add: ga2int_def ga2int_loop_None)
next
  assume "v \<in> set cigarStrings"
  then have "ga2int v \<noteq> None"
    by (simp add: ga2int_def ga2int_loop_None)
  then obtain i where i: "ga2int_loop 0 cigarStrings v = Some i"
    by (auto simp: ga2int_def)
  from ga2int_loop_Some [OF i] i
  show "\<exists>i. ga2int v = Some i \<and> 0 \<le> i \<and> i < 9 \<and> cigarStrings ! nat i = v
             \<and> (\<forall>m < nat i. cigarStrings ! m \<noteq> v)"
    by (simp add: ga2int_def length_cigarStrings)
qed

theorem ga2int_first_index_witness:
  "Other ''MATCH'' \<notin> set cigarStrings \<and> ga2int (Other ''MATCH'') = None
   \<and> Kind DELETE \<in> set cigarStrings \<and> ga2int (Kind DELETE) = Some 2
   \<and> cigarStrings ! 2 = Kind DELETE"
  using ga2int_first_index [of "Other ''MATCH''"] ga2int_first_index [of "Kind DELETE"]
  by (simp add: cigarStrings_def ga2int_kinds)

text \<open>
  Against C6 as stated (no kind for a code outside 0 to 8): the code -1 indexes the
  list from its end and yields the last kind.
\<close>

theorem int2ga_negative_counterexample:
  "int2ga (- 1) = Inr (Kind SEQUENCE_MISMATCH)"
  by (simp add: int2ga_def py_index_def cigarStrings_def)

text \<open>
  Claim C6, as amended: for a code below -9 or above 8, \<open>int2ga\<close> raises \<open>IndexError\<close>
  and produces no kind; for a code from 0 to 8 it returns the entry at that position of
  the list of nine entries.
\<close>

theorem int2ga_range:
  "(c < - 9 \<or> 8 < c \<longrightarrow> int2ga c = Inl IndexError)
   \<and> (0 \<le> c \<and> c \<le> 8 \<longrightarrow> int2ga c = Inr (cigarStrings ! nat c))
   \<and> length cigarStrings = 9"
  by (auto simp: int2ga_def py_index_def length_cigarStrings)

theorem int2ga_range_witness:
  "((8::int) < 9 \<and> int2ga 9 = Inl IndexError)
   \<and> ((- 10 :: int) < - 9 \<and> int2ga (- 10) = Inl IndexError)
   \<and> ((0::int) \<le> 3 \<and> (3::int) \<le> 8 \<and> int2ga 3 = Inr (Kind SKIP))"
  using int2ga_range [of 9] int2ga_range [of "- 10"] int2ga_range [of 3]
  by (simp add: cigarStrings_def)

section \<open>The mapper\<close>

lemma convertPosition_Inr:
  "convertPosition self rid start = Inr p \<longleftrightarrow>
     sanitizeGetRName self rid = Inr ()
     \<and> (\<exists>name. getrname self rid = Inr name
            \<and> p = \<lparr>referenceName = name, position = start, strand = POS_STRAND\<rparr>)"
  by (auto simp: convertPosition_def bind_err_Inr)

lemma convertCigar_referenceSequence:
  "convertCigar pairs = Inr units \<Longrightarrow> \<forall>u \<in> set units. referenceSequence u = None"
proof (induction pairs arbitrary: units)
  case Nil
  then show ?case by simp
next
  case (Cons pair rest)
  obtain opcode len where pair: "pair = (opcode, len)" by (cases pair)
  from Cons.prems pair obtain ga us where
    us: "convertCigar rest = Inr us" and
    units: "units = \<lparr>operation = ga, operationLength = len, referenceSequence = None\<rparr> # us"
    by (auto simp: bind_err_Inr)
  from Cons.IH [OF us] units show ?case by simp
qed

lemma convertReadAlignment_flags:
  assumes "convertReadAlignment str self read = Inr ret"
  shows "numberReads ret = fst (convertReadNumbers (flag read))"
    and "readNumber ret = snd (convertReadNumbers (flag read))"
    and "properPlacement ret = isFlagSet (flag read) PROPER_PLACEMENT"
    and "secondaryAlignment ret = isFlagSet (flag read) SECONDARY_ALIGNMENT"
  using assms by (auto simp: convertReadAlignment_def bind_err_Inr)

lemma convertReadAlignment_alignment:
  assumes "convertReadAlignment str self read = Inr ret"
  shows "convertPosition self (reference_id read) (reference_start read)
           = Inr (alignment_position (alignment ret))"
    and "convertCigar (cigar read) = Inr (alignment_cigar (alignment ret))"
  using assms by (auto simp: convertReadAlignment_def bind_err_Inr)

lemma convertReadAlignment_mate:
  assumes "convertReadAlignment str self read = Inr ret"
  shows "next_reference_id read = - 1 \<Longrightarrow> nextMatePosition ret = None"
    and "next_reference_id read \<noteq> - 1 \<Longrightarrow>
           \<exists>p. convertPosition self (next_reference_id read) (next_reference_start read) = Inr p
               \<and> nextMatePosition ret = Some p"
  using assms by (auto simp: convertReadAlignment_def bind_err_Inr)

text \<open>
  Claim C3: in every record the mapper returns, \<open>numberReads\<close> and \<open>readNumber\<close> are
  both \<open>None\<close> when the bit \<open>0x1\<close> is not set in the raw flag; when it is set,
  \<open>numberReads\<close> is 2 and \<open>readNumber\<close> is 0 if the bit \<open>0x40\<close> is set, else 1 if
  the bit \<open>0x80\<close> is set, else \<open>None\<close>. With the flag \<open>0x43\<close> the record has
  \<open>properPlacement\<close> true, \<open>numberReads\<close> 2, \<open>readNumber\<close> 0 and
  \<open>secondaryAlignment\<close> false.
\<close>

theorem convertReadAlignment_read_numbers:
  assumes "convertReadAlignment str self read = Inr ret"
  shows "(\<not> isFlagSet (flag read) 0x1 \<longrightarrow> numberReads ret = None \<and> readNumber ret = None)
       \<and> (isFlagSet (flag read) 0x1 \<longrightarrow>
            numberReads ret = Some 2
            \<and> readNumber ret =
                (if isFlagSet (flag read) 0x40 then Some 0
                 else if isFlagSet (flag read) 0x80 then Some 1
                 else None))
       \<and> (flag read = 0x43 \<longrightarrow>
            properPlacement ret \<and> numberReads ret = Some 2 \<and> readNumber ret = Some 0
            \<and> \<not> secondaryAlignment ret)"
proof -
  have c: "(67::int) AND 1 = 1" "(67::int) AND 2 = 2" "(67::int) AND 64 = 64"
    "(67::int) AND 256 \<noteq> 256"
    by simp_all
  show ?thesis
    using c
    by (simp add: convertReadAlignment_flags [OF assms] convertReadNumbers_def isFlagSet_def
        NUMBER_READS_def READ_NUMBER_ONE_def READ_NUMBER_TWO_def PROPER_PLACEMENT_def
        SECONDARY_ALIGNMENT_def)
qed

lemma sample_convert:
  "convertReadAlignment sampleStr (sampleGroup recs) (sampleRead fl (- 1) []) =
     Inr \<lparr>alignedQuality = [30, 31, 32],
          alignedSequence = ''ACT'',
          alignment = \<lparr>mappingQuality = 60,
                       alignment_position =
                         \<lparr>referenceName = ''chr1'', position = 100, strand = POS_STRAND\<rparr>,
                       alignment_cigar = []\<rparr>,
          duplicateFragment = isFlagSet fl DUPLICATE_FRAGMENT,
          failedVendorQualityChecks = isFlagSet fl FAILED_VENDOR_QUALITY_CHECKS,
          fragmentLength = 3,
          fragmentName = ''read1'',
          alignment_id = ''set:file:read1'',
          info = [''NM'' \<mapsto> [''2'']],
          nextMatePosition = None,
          numberReads = fst (convertReadNumbers fl),
          readNumber = snd (convertReadNumbers fl),
          properPlacement = isFlagSet fl PROPER_PLACEMENT,
          readGroupId = ''set:file'',
          secondaryAlignment = isFlagSet fl SECONDARY_ALIGNMENT,
          supplementaryAlignment = isFlagSet fl SUPPLEMENTARY_ALIGNMENT\<rparr>"
  by (simp add: convertReadAlignment_def convertPosition_def bind_err_def sampleGroup_def
      sampleRead_def convertTags_def sampleStr_def)

theorem convertReadAlignment_read_numbers_witness:
  "(\<exists>ret. convertReadAlignment sampleStr (sampleGroup []) (sampleRead 0x43 (- 1) []) = Inr ret
      \<and> flag (sampleRead 0x43 (- 1) []) = 0x43 \<and> isFlagSet 0x43 0x1 \<and> isFlagSet 0x43 0x40
      \<and> properPlacement ret \<and> numberReads ret = Some 2 \<and> readNumber ret = Some 0
      \<and> \<not> secondaryAlignment ret)
   \<and> (\<exists>ret. convertReadAlignment sampleStr (sampleGroup []) (sampleRead 0x2 (- 1) []) = Inr ret
      \<and> \<not> isFlagSet (flag (sampleRead 0x2 (- 1) [])) 0x1
      \<and> numberReads ret = None \<and> readNumber ret = None)"
proof -
  obtain r1 where r1:
    "convertReadAlignment sampleStr (sampleGroup []) (sampleRead 0x43 (- 1) []) = Inr r1"
    by (simp add: sample_convert)
  obtain r2 where r2:
    "convertReadAlignment sampleStr (sampleGroup []) (sampleRead 0x2 (- 1) []) = Inr r2"
    by (simp add: sample_convert)
  have f: "flag (sampleRead 0x43 (- 1) []) = 0x43" "flag (sampleRead 0x2 (- 1) []) = 0x2"
    by (simp_all add: sampleRead_def)
  have b: "isFlagSet 0x43 0x1" "isFlagSet 0x43 0x40" "\<not> isFlagSet 0x2 0x1"
    by (simp_all add: isFlagSet_def)
  from convertReadAlignment_read_numbers [OF r1] f b
  have "properPlacement r1 \<and> numberReads r1 = Some 2 \<and> readNumber r1 = Some 0
        \<and> \<not> secondaryAlignment r1"
    by simp
  moreover from convertReadAlignment_read_numbers [OF r2] f b
  have "numberReads r2 = None \<and> readNumber r2 = None"
    by simp
  ultimately show ?thesis using r1 r2 f b by simp
qed

text \<open>
  Claim C4: in every record the mapper returns, \<open>nextMatePosition\<close> is \<open>None\<close> exactly
  when the raw next-reference index is -1; otherwise it is the position whose name is
  the looked-up name of that index, whose position is the raw next-reference start and
  whose strand is positive.
\<close>

theorem convertReadAlignment_nextMatePosition:
  assumes "convertReadAlignment str self read = Inr ret"
  shows "(nextMatePosition ret = None \<longleftrightarrow> next_reference_id read = - 1)
       \<and> (next_reference_id read \<noteq> - 1 \<longrightarrow>
            (\<exists>name. getrname self (next_reference_id read) = Inr name
               \<and> nextMatePosition ret =
                   Some \<lparr>referenceName = name, position = next_reference_start read,
                         strand = POS_STRAND\<rparr>))"
proof (cases "next_reference_id read = - 1")
  case True
  with convertReadAlignment_mate(1) [OF assms] show ?thesis by simp
next
  case False
  from convertReadAlignment_mate(2) [OF assms False]
  show ?thesis using False by (auto simp: convertPosition_Inr)
qed

lemma sample_convert_mate:
  "convertReadAlignment sampleStr (sampleGroup recs) (sampleRead fl 1 [(0, 10), (1, 2)]) =
     Inr \<lparr>alignedQuality = [30, 31, 32],
          alignedSequence = ''ACT'',
          alignment = \<lparr>mappingQuality = 60,
                       alignment_position =
                         \<lparr>referenceName = ''chr1'', position = 100, strand = POS_STRAND\<rparr>,
                       alignment_cigar =
                         [\<lparr>operation = Kind ALIGNMENT_MATCH, operationLength = 10,
                           referenceSequence = None\<rparr>,
                          \<lparr>operation = Kind INSERT, operationLength = 2,
                           referenceSequence = None\<rparr>]\<rparr>,
          duplicateFragment = isFlagSet fl DUPLICATE_FRAGMENT,
          failedVendorQualityChecks = isFlagSet fl FAILED_VENDOR_QUALITY_CHECKS,
          fragmentLength = 3,
          fragmentName = ''read1'',
          alignment_id = ''set:file:read1'',
          info = [''NM'' \<mapsto> [''2'']],
          nextMatePosition =
            Some \<lparr>referenceName = ''chr2'', position = 200, strand = POS_STRAND\<rparr>,
          numberReads = fst (convertReadNumbers fl),
          readNumber = snd (convertReadNumbers fl),
          properPlacement = isFlagSet fl PROPER_PLACEMENT,
          readGroupId = ''set:file'',
          secondaryAlignment = isFlagSet fl SECONDARY_ALIGNMENT,
          supplementaryAlignment = isFlagSet fl SUPPLEMENTARY_ALIGNMENT\<rparr>"
  by (simp add: convertReadAlignment_def convertPosition_def bind_err_def sampleGroup_def
      sampleRead_def convertTags_def sampleStr_def int2ga_def py_index_def cigarStrings_def)

theorem convertReadAlignment_nextMatePosition_witness:
  "(\<exists>ret. convertReadAlignment sampleStr (sampleGroup []) (sampleRead 0 1 [(0, 10), (1, 2)])
            = Inr ret
      \<and> next_reference_id (sampleRead 0 1 [(0, 10), (1, 2)]) \<noteq> - 1
      \<and> nextMatePosition ret =
           Some \<lparr>referenceName = ''chr2'', position = 200, strand = POS_STRAND\<rparr>)
   \<and> (\<exists>ret. convertReadAlignment sampleStr (sampleGroup []) (sampleRead 0 (- 1) []) = Inr ret
      \<and> next_reference_id (sampleRead 0 (- 1) []) = - 1
      \<and> nextMatePosition ret = None)"
proof -
  obtain r1 where r1:
    "convertReadAlignment sampleStr (sampleGroup []) (sampleRead 0 1 [(0, 10), (1, 2)]) = Inr r1"
    by (simp add: sample_convert_mate)
  obtain r2 where r2:
    "convertReadAlignment sampleStr (sampleGroup []) (sampleRead 0 (- 1) []) = Inr r2"
    by (simp add: sample_convert)
  have n: "next_reference_id (sampleRead 0 1 [(0, 10), (1, 2)]) = 1"
    "next_reference_start (sampleRead 0 1 [(0, 10), (1, 2)]) = 200"
    "next_reference_id (sampleRead 0 (- 1) []) = - 1"
    by (simp_all add: sampleRead_def)
  have g: "getrname (sampleGroup []) 1 = Inr ''chr2''"
    by (simp add: sampleGroup_def)
  from convertReadAlignment_nextMatePosition [OF r1] n g
  have "nextMatePosition r1 =
          Some \<lparr>referenceName = ''chr2'', position = 200, strand = POS_STRAND\<rparr>"
    by simp
  moreover from convertReadAlignment_nextMatePosition [OF r2] n
  have "nextMatePosition r2 = None"
    by simp
  ultimately show ?thesis using r1 r2 n by simp
qed

text \<open>
  Claim C7: in every record the mapper returns, the strand of the alignment's position
  is positive, the strand of \<open>nextMatePosition\<close> is positive when there is one, and
  the \<open>referenceSequence\<close> of every unit of the alignment's CIGAR list is \<open>None\<close>.
\<close>

theorem convertReadAlignment_placeholders:
  assumes "convertReadAlignment str self read = Inr ret"
  shows "strand (alignment_position (alignment ret)) = POS_STRAND
       \<and> (\<forall>p. nextMatePosition ret = Some p \<longrightarrow> strand p = POS_STRAND)
       \<and> (\<forall>u \<in> set (alignment_cigar (alignment ret)). referenceSequence u = None)"
proof (intro conjI allI impI)
  from convertReadAlignment_alignment(1) [OF assms]
  show "strand (alignment_position (alignment ret)) = POS_STRAND"
    by (auto simp: convertPosition_Inr)
next
  fix p assume p: "nextMatePosition ret = Some p"
  with convertReadAlignment_mate(1) [OF assms] have "next_reference_id read \<noteq> - 1"
    by auto
  from convertReadAlignment_mate(2) [OF assms this] p
  show "strand p = POS_STRAND"
    by (auto simp: convertPosition_Inr)
next
  from convertReadAlignment_alignment(2) [OF assms]
  show "\<forall>u \<in> set (alignment_cigar (alignment ret)). referenceSequence u = None"
    by (rule convertCigar_referenceSequence)
qed

theorem convertReadAlignment_placeholders_witness:
  "\<exists>ret. convertReadAlignment sampleStr (sampleGroup []) (sampleRead 0x10 1 [(0, 10), (1, 2)])
            = Inr ret
      \<and> strand (alignment_position (alignment ret)) = POS_STRAND
      \<and> map strand (case nextMatePosition ret of Some p \<Rightarrow> [p] | None \<Rightarrow> []) = [POS_STRAND]
      \<and> map referenceSequence (alignment_cigar (alignment ret)) = [None, None]"
proof -
  obtain ret where r:
    "convertReadAlignment sampleStr (sampleGroup []) (sampleRead 0x10 1 [(0, 10), (1, 2)])
       = Inr ret"
    by (simp add: sample_convert_mate)
  then have shape: "length (alignment_cigar (alignment ret)) = 2"
    "nextMatePosition ret \<noteq> None"
    by (auto simp: sample_convert_mate)
  then obtain u1 u2 p where u: "alignment_cigar (alignment ret) = [u1, u2]"
    "nextMatePosition ret = Some p"
    by (auto simp: length_Suc_conv numeral_2_eq_2)
  from convertReadAlignment_placeholders [OF r] u
  show ?thesis using r by simp
qed

text \<open>
  Claim C10: when the raw flag has the bits \<open>0x1\<close>, \<open>0x40\<close> and \<open>0x80\<close> all set,
  the returned record has \<open>readNumber\<close> 0: the first-in-pair test comes first.
\<close>

theorem convertReadAlignment_first_in_pair_precedence:
  assumes "convertReadAlignment str self read = Inr ret"
    and "isFlagSet (flag read) 0x1"
    and "isFlagSet (flag read) 0x40"
    and "isFlagSet (flag read) 0x80"
  shows "readNumber ret = Some 0"
  using assms(2-4)
  by (simp add: convertReadAlignment_flags(2) [OF assms(1)] convertReadNumbers_def
      NUMBER_READS_def READ_NUMBER_ONE_def READ_NUMBER_TWO_def)

theorem convertReadAlignment_first_in_pair_precedence_witness:
  "\<exists>ret. convertReadAlignment sampleStr (sampleGroup []) (sampleRead 0xC1 (- 1) []) = Inr ret
      \<and> isFlagSet (flag (sampleRead 0xC1 (- 1) [])) 0x1
      \<and> isFlagSet (flag (sampleRead 0xC1 (- 1) [])) 0x40
      \<and> isFlagSet (flag (sampleRead 0xC1 (- 1) [])) 0x80
      \<and> readNumber ret = Some 0"
proof -
  obtain ret where r:
    "convertReadAlignment sampleStr (sampleGroup []) (sampleRead 0xC1 (- 1) []) = Inr ret"
    by (simp add: sample_convert)
  have b: "isFlagSet (flag (sampleRead 0xC1 (- 1) [])) 0x1"
    "isFlagSet (flag (sampleRead 0xC1 (- 1) [])) 0x40"
    "isFlagSet (flag (sampleRead 0xC1 (- 1) [])) 0x80"
    by (simp_all add: sampleRead_def isFlagSet_def)
  from convertReadAlignment_first_in_pair_precedence [OF r b] r b
  show ?thesis by simp
qed

section \<open>The generator\<close>

lemma yieldReadAlignments_prefix:
  "yieldReadAlignments str self reads = (rets, err) \<Longrightarrow>
     length rets \<le> length reads
     \<and> map Inr rets = map (convertReadAlignment str self) (take (length rets) reads)
     \<and> (err = None \<longleftrightarrow> length rets = length reads)
     \<and> (\<forall>e. err = Some e \<longrightarrow> convertReadAlignment str self (reads ! length rets) = Inl e)"
proof (induction reads arbitrary: rets err)
  case Nil
  then show ?case by simp
next
  case (Cons r rest)
  show ?case
  proof (cases "convertReadAlignment str self r")
    case (Inl e)
    with Cons.prems show ?thesis by auto
  next
    case (Inr ret)
    obtain rets' err' where y: "yieldReadAlignments str self rest = (rets', err')"
      by (cases "yieldReadAlignments str self rest")
    with Cons.prems Inr have eq: "rets = ret # rets'" "err = err'" by simp_all
    from Cons.IH [OF y] eq Inr show ?thesis by simp
  qed
qed

lemma yieldReadAlignments_all:
  "yieldReadAlignments str self reads = (rets, err) \<Longrightarrow>
     (err = None \<longleftrightarrow> (\<forall>r \<in> set reads. \<exists>ret. convertReadAlignment str self r = Inr ret))"
proof (induction reads arbitrary: rets err)
  case Nil
  then show ?case by simp
next
  case (Cons r rest)
  show ?case
  proof (cases "convertReadAlignment str self r")
    case (Inl e)
    with Cons.prems show ?thesis by auto
  next
    case (Inr ret)
    obtain rets' err' where y: "yieldReadAlignments str self rest = (rets', err')"
      by (cases "yieldReadAlignments str self rest")
    with Cons.prems Inr have eq: "err = err'" by simp
    from Cons.IH [OF y] eq Inr show ?thesis by simp
  qed
qed

text \<open>
  Claim C8, as amended: when the fetch hands over the records \<open>reads\<close>, the generator
  yields the conversions of a prefix of \<open>reads\<close>, one per record and in the same order.
  It ends without an exception exactly when it yielded as many records as it was given;
  otherwise the exception is the one the conversion of the next record raised. When
  every conversion returns, the output is the conversion of the whole input and has its
  length.
\<close>

theorem getReadAlignments_order:
  assumes "fetchReadAlignments self referenceId start end' = Inr reads"
    and "getReadAlignments str self referenceId start end' = (rets, err)"
  shows "length rets \<le> length reads
       \<and> map Inr rets = map (convertReadAlignment str self) (take (length rets) reads)
       \<and> (err = None \<longleftrightarrow> length rets = length reads)
       \<and> (\<forall>e. err = Some e \<longrightarrow> convertReadAlignment str self (reads ! length rets) = Inl e)
       \<and> ((\<forall>r \<in> set reads. \<exists>ret. convertReadAlignment str self r = Inr ret)
            \<longrightarrow> length rets = length reads
                \<and> map Inr rets = map (convertReadAlignment str self) reads)"
proof -
  from assms have y: "yieldReadAlignments str self reads = (rets, err)"
    by (simp add: getReadAlignments_def)
  note p = yieldReadAlignments_prefix [OF y]
  note a = yieldReadAlignments_all [OF y]
  from p a show ?thesis by auto
qed

lemma sample_fetch:
  "fetchReadAlignments (sampleGroup recs) None None None = Inr recs"
  by (simp add: fetchReadAlignments_def sampleGroup_def bind_err_def)

lemma sample_convert_ok:
  "\<exists>ret. convertReadAlignment sampleStr (sampleGroup recs) (sampleRead fl (- 1) []) = Inr ret"
  by (simp add: convertReadAlignment_def convertPosition_def bind_err_def sampleGroup_def
      sampleRead_def)

lemma sample_convert_bad:
  "convertReadAlignment sampleStr (sampleGroup recs) (sampleRead fl (- 1) [(9, 1)])
     = Inl IndexError"
  by (simp add: convertReadAlignment_def convertPosition_def bind_err_def sampleGroup_def
      sampleRead_def int2ga_def py_index_def cigarStrings_def)

text \<open>
  Against C8 as stated (the output is as long as the input): of three fetched records
  whose second has the CIGAR code 9, only the first is yielded, and the iteration ends
  with the \<open>IndexError\<close> of \<open>int2ga\<close>.
\<close>

theorem getReadAlignments_abort_counterexample:
  "length (fst (getReadAlignments sampleStr
      (sampleGroup [sampleRead 0 (- 1) [], sampleRead 0 (- 1) [(9, 1)], sampleRead 0 (- 1) []])
      None None None)) = 1
   \<and> snd (getReadAlignments sampleStr
      (sampleGroup [sampleRead 0 (- 1) [], sampleRead 0 (- 1) [(9, 1)], sampleRead 0 (- 1) []])
      None None None) = Some IndexError"
proof -
  obtain ret where
    "convertReadAlignment sampleStr
       (sampleGroup [sampleRead 0 (- 1) [], sampleRead 0 (- 1) [(9, 1)], sampleRead 0 (- 1) []])
       (sampleRead 0 (- 1) []) = Inr ret"
    using sample_convert_ok by blast
  then show ?thesis
    by (simp add: getReadAlignments_def sample_fetch sample_convert_bad)
qed

theorem getReadAlignments_order_witness:
  "fetchReadAlignments (sampleGroup [sampleRead 0x43 (- 1) [], sampleRead 0x83 (- 1) []])
     None None None = Inr [sampleRead 0x43 (- 1) [], sampleRead 0x83 (- 1) []]
   \<and> length (fst (getReadAlignments sampleStr
        (sampleGroup [sampleRead 0x43 (- 1) [], sampleRead 0x83 (- 1) []]) None None None)) = 2
   \<and> snd (getReadAlignments sampleStr
        (sampleGroup [sampleRead 0x43 (- 1) [], sampleRead 0x83 (- 1) []]) None None None)
       = None"
proof -
  let ?g = "sampleGroup [sampleRead 0x43 (- 1) [], sampleRead 0x83 (- 1) []]"
  let ?reads = "[sampleRead 0x43 (- 1) [], sampleRead 0x83 (- 1) []]"
  obtain rets err where g: "getReadAlignments sampleStr ?g None None None = (rets, err)"
    by (cases "getReadAlignments sampleStr ?g None None None")
  have ok: "\<forall>r \<in> set ?reads. \<exists>ret. convertReadAlignment sampleStr ?g r = Inr ret"
    using sample_convert_ok by simp
  from getReadAlignments_order [OF sample_fetch g] ok
  have "length rets = 2" "err = None"
    by simp_all
  with g sample_fetch show ?thesis by simp
qed

section \<open>The frontend's routes\<close>

lemma raising_views:
  "raisesPathNotFound (\<lambda>backend request ident. index)"
  "raisesPathNotFound (\<lambda>backend request ident. getReference ident)"
  "raisesPathNotFound (\<lambda>backend request ident. getReferenceBases ident)"
  "raisesPathNotFound (\<lambda>backend request ident. getReferenceSet ident)"
  "raisesPathNotFound (\<lambda>backend request ident. searchCallSets)"
  "raisesPathNotFound (\<lambda>backend request ident. searchReadGroupSets)"
  "raisesPathNotFound (\<lambda>backend request ident. searchReads)"
  "raisesPathNotFound (\<lambda>backend request ident. searchReferenceSets)"
  "raisesPathNotFound (\<lambda>backend request ident. searchReferences)"
  by (simp_all add: raisesPathNotFound_def index_def getReference_def getReferenceBases_def
      getReferenceSet_def searchCallSets_def searchReadGroupSets_def searchReads_def
      searchReferenceSets_def searchReferences_def)

lemma sample_answers:
  "searchVariantSets sampleBackend samplePost =
     Inr \<lparr>response_body = ''sets:{}'', response_status = 200,
          response_mimetype = ''application/json'', response_headers = []\<rparr>"
  "searchVariants sampleBackend samplePost =
     Inr \<lparr>response_body = ''variants:{}'', response_status = 200,
          response_mimetype = ''application/json'', response_headers = []\<rparr>"
  "searchExpressionAnalysis sampleBackend samplePost =
     Inr \<lparr>response_body = ''expression:{}'', response_status = 200,
          response_mimetype = ''application/json'', response_headers = []\<rparr>"
  by (simp_all add: searchVariantSets_def searchVariants_def searchExpressionAnalysis_def
      handleHTTPPost_def bind_err_def sampleBackend_def samplePost_def)

lemma answering_views:
  "\<not> raisesPathNotFound (\<lambda>backend request ident. searchVariantSets backend request)"
  "\<not> raisesPathNotFound (\<lambda>backend request ident. searchVariants backend request)"
  "\<not> raisesPathNotFound (\<lambda>backend request ident. searchExpressionAnalysis backend request)"
proof -
  have "searchVariantSets sampleBackend samplePost \<noteq> Inl PathNotFoundException"
    by (simp add: sample_answers)
  then show "\<not> raisesPathNotFound (\<lambda>backend request ident. searchVariantSets backend request)"
    unfolding raisesPathNotFound_def by blast
next
  have "searchVariants sampleBackend samplePost \<noteq> Inl PathNotFoundException"
    by (simp add: sample_answers)
  then show "\<not> raisesPathNotFound (\<lambda>backend request ident. searchVariants backend request)"
    unfolding raisesPathNotFound_def by blast
next
  have "searchExpressionAnalysis sampleBackend samplePost \<noteq> Inl PathNotFoundException"
    by (simp add: sample_answers)
  then show
    "\<not> raisesPathNotFound (\<lambda>backend request ident. searchExpressionAnalysis backend request)"
    unfolding raisesPathNotFound_def by blast
qed

lemma delegating_views:
  "delegatesTo (\<lambda>backend request ident. searchVariantSets backend request)
     backend_searchVariantSets"
  "delegatesTo (\<lambda>backend request ident. searchVariants backend request)
     backend_searchVariants"
  "delegatesTo (\<lambda>backend request ident. searchExpressionAnalysis backend request)
     backend_searchExpressionAnalysis"
  by (simp_all add: delegatesTo_def searchVariantSets_def searchVariants_def
      searchExpressionAnalysis_def handleHTTPPost_def bind_err_def)

text \<open>
  Against C9 as stated (two delegating routes, all others raising): on a JSON POST
  request three routes answer with the backend's response instead of raising.
\<close>

theorem routes_three_answer_counterexample:
  "answeringRoutes sampleBackend samplePost [] =
     [''/variantsets/search'', ''/variants/search'', ''/expressionanalysis/search'']"
  by (simp add: answeringRoutes_def routes_def sample_answers index_def getReference_def
      getReferenceBases_def getReferenceSet_def searchCallSets_def searchReadGroupSets_def
      searchReads_def searchReferenceSets_def searchReferences_def)

text \<open>
  Claim C9, as amended: of the twelve routes, the three routes \<open>/variantsets/search\<close>,
  \<open>/variants/search\<close> and \<open>/expressionanalysis/search\<close> are the ones whose view does
  not always raise the path-not-found exception, and each of the three passes a JSON
  POST request through to the backend method of its name; the views of the other nine
  routes raise the exception on every call.
\<close>

theorem routes_delegations:
  "length routes = 12
   \<and> map fst (filter (\<lambda>(rule, methods, v). \<not> raisesPathNotFound v) routes) =
       [''/variantsets/search'', ''/variants/search'', ''/expressionanalysis/search'']
   \<and> (\<exists>v. (''/variantsets/search'', [''POST'', ''OPTIONS''], v) \<in> set routes
          \<and> delegatesTo v backend_searchVariantSets)
   \<and> (\<exists>v. (''/variants/search'', [''POST'', ''OPTIONS''], v) \<in> set routes
          \<and> delegatesTo v backend_searchVariants)
   \<and> (\<exists>v. (''/expressionanalysis/search'', [''POST'', ''OPTIONS''], v) \<in> set routes
          \<and> delegatesTo v backend_searchExpressionAnalysis)"
proof (intro conjI)
  show "length routes = 12"
    by (simp add: routes_def)
  show "map fst (filter (\<lambda>(rule, methods, v). \<not> raisesPathNotFound v) routes) =
       [''/variantsets/search'', ''/variants/search'', ''/expressionanalysis/search'']"
    by (simp add: routes_def raising_views answering_views)
  show "\<exists>v. (''/variantsets/search'', [''POST'', ''OPTIONS''], v) \<in> set routes
          \<and> delegatesTo v backend_searchVariantSets"
    using delegating_views(1) by (auto simp: routes_def)
  show "\<exists>v. (''/variants/search'', [''POST'', ''OPTIONS''], v) \<in> set routes
          \<and> delegatesTo v backend_searchVariants"
    using delegating_views(2) by (auto simp: routes_def)
  show "\<exists>v. (''/expressionanalysis/search'', [''POST'', ''OPTIONS''], v) \<in> set routes
          \<and> delegatesTo v backend_searchExpressionAnalysis"
    using delegating_views(3) by (auto simp: routes_def)
qed

theorem routes_delegations_witness:
  "request_method samplePost = ''POST'' \<and> request_mimetype samplePost = ''application/json''
   \<and> (\<exists>v. (''/expressionanalysis/search'', [''POST'', ''OPTIONS''], v) \<in> set routes
          \<and> v sampleBackend samplePost [] =
              Inr \<lparr>response_body = ''expression:{}'', response_status = 200,
                   response_mimetype = ''application/json'', response_headers = []\<rparr>)"
proof -
  from routes_delegations obtain v where
    r: "(''/expressionanalysis/search'', [''POST'', ''OPTIONS''], v) \<in> set routes" and
    d: "delegatesTo v backend_searchExpressionAnalysis"
    by blast
  have p: "request_method samplePost = ''POST''"
    "request_mimetype samplePost = ''application/json''"
    by (simp_all add: samplePost_def)
  from d p have "v sampleBackend samplePost [] =
      (case backend_searchExpressionAnalysis sampleBackend (request_data samplePost) of
         Inl e \<Rightarrow> Inl e
       | Inr responseStr \<Rightarrow>
           Inr \<lparr>response_body = responseStr, response_status = 200,
                response_mimetype = ''application/json'', response_headers = []\<rparr>)"
    unfolding delegatesTo_def by blast
  then have "v sampleBackend samplePost [] =
      Inr \<lparr>response_body = ''expression:{}'', response_status = 200,
           response_mimetype = ''application/json'', response_headers = []\<rparr>"
    by (simp add: sampleBackend_def samplePost_def)
  with r p show ?thesis by blast
qed

end
